theory Spec2Isabelle
  imports Complex_Main
begin

unbundle bit_operations_syntax

section \<open>Python values, exceptions and the library interface\<close>

text \<open>
  The cache manager of \<^verbatim>\<open>src/backend/caching/advanced_cache_manager.py\<close> stores
  arbitrary Python objects. The embedding works over a fragment of them: \<open>None\<close>,
  booleans, integers, strings, tuples, dictionaries (an association list in insertion
  order, as Python keeps it) and \<open>PLambda\<close>, an object that \<open>pickle\<close> refuses.
  A Python \<open>str\<close> and a Python \<open>bytes\<close> are both a \<open>string\<close> here (a list of
  8-bit characters): a text is represented by its UTF-8 bytes, so \<open>str.encode()\<close> is the
  identity, and \<open>decode('latin-1')\<close> / \<open>encode('latin-1')\<close> are the identity on bytes.
\<close>

datatype pyval =
    PNone
  | PBool bool
  | PInt int
  | PStr string
  | PTuple "pyval list"
  | PDict "(pyval \<times> pyval) list"
  | PLambda

text \<open>Exceptions are values; \<open>UserError\<close> is whatever the cached function itself raises.\<close>

datatype error =
    PicklingError
  | UnpicklingError
  | ZlibError
  | TypeError
  | JSONDecodeError
  | IsADirectoryError
  | RedisConnectionError
  | RedisResponseError
  | UserError string

text \<open>
  The functions of \<open>pickle\<close>, \<open>zlib\<close> and \<open>hashlib\<close> that the source calls are not code
  of the repository. Every operation takes them as a parameter: a record of the five
  library functions used.
\<close>

record pylib =
  pickle_dumps :: "pyval \<Rightarrow> error + string"
  pickle_loads :: "string \<Rightarrow> error + pyval"
  zlib_compress :: "string \<Rightarrow> string"
  zlib_decompress :: "string \<Rightarrow> error + string"
  sha256_hexdigest :: "string \<Rightarrow> string"

subsection \<open>\<open>repr\<close> of a bytes object, as the f-string of the key derivation formats it\<close>

definition hex_digit :: "nat \<Rightarrow> char" where
  "hex_digit n = ''0123456789abcdef'' ! (n mod 16)"

definition repr_byte :: "char \<Rightarrow> char \<Rightarrow> string" where
  "repr_byte quote c =
     (if c = quote \<or> c = CHR 0x5C then [CHR 0x5C, c]
      else if c = CHR 0x09 then [CHR 0x5C, CHR ''t'']
      else if c = CHR 0x0A then [CHR 0x5C, CHR ''n'']
      else if c = CHR 0x0D then [CHR 0x5C, CHR ''r'']
      else if (of_char c :: nat) < 32 \<or> 127 \<le> (of_char c :: nat)
        then [CHR 0x5C, CHR ''x'', hex_digit (of_char c div 16), hex_digit (of_char c mod 16)]
      else [c])"

definition repr_quote :: "string \<Rightarrow> char" where
  "repr_quote b = (if CHR 0x27 \<in> set b \<and> CHR 0x22 \<notin> set b then CHR 0x22 else CHR 0x27)"

definition bytes_repr :: "string \<Rightarrow> string" where
  "bytes_repr b =
     [CHR ''b'', repr_quote b] @ concat (map (repr_byte (repr_quote b)) b) @ [repr_quote b]"

section \<open>The cache manager and its environment\<close>

text \<open>
  An entry of the in-memory table: the dictionary \<open>{'value': ..., 'expiry': ...}\<close>.
  Clock readings (\<open>time.time()\<close>) and expiry stamps are rationals; the rounding of
  floating-point addition is not modelled.
\<close>

record cache_entry =
  entry_value :: string
  entry_expiry :: rat

datatype redis_conn = Redis string int int

text \<open>The object itself: \<open>self.redis_client\<close> (\<open>None\<close> when the ping failed),
  \<open>self.cache_dir\<close> and \<open>self.memory_cache\<close>.\<close>

record manager =
  redis_client :: "redis_conn option"
  cache_dir :: string
  memory_cache :: "string \<rightharpoonup> cache_entry"

text \<open>
  A JSON document as \<open>json.load\<close> returns it. A file is represented by what
  \<open>json.load\<close> makes of its text: the document it denotes, or no document at all
  (\<open>NotJson\<close> with the raw bytes; the empty file is \<open>NotJson []\<close>). The members
  of an object are the items of the dictionary that \<open>json.load\<close> built, each name once.
\<close>

datatype json =
    JNull
  | JBool bool
  | JNum rat
  | JStr string
  | JArr "json list"
  | JObj "(string \<times> json) list"

datatype file_content = JsonText json | NotJson string

text \<open>
  What the manager acts on outside itself: the clock, the Redis server (reachable or
  not, with its keys and their expiry stamps), and the regular files of the file system
  by path, with the paths that name a directory. Every path that does not name a
  directory can be opened for writing; for a key with a directory part that does not
  exist the real \<open>open\<close> raises instead, which the model does not show.
\<close>

record env =
  clock :: rat
  redis_reachable :: bool
  redis_store :: "string \<rightharpoonup> (string \<times> rat)"
  files :: "string \<rightharpoonup> file_content"
  directories :: "string set"

subsection \<open>The Redis client, as the source uses it\<close>

definition redis_ping :: "env \<Rightarrow> error + unit" where
  "redis_ping w = (if redis_reachable w then Inr () else Inl RedisConnectionError)"

definition redis_setex :: "env \<Rightarrow> string \<Rightarrow> int \<Rightarrow> string \<Rightarrow> error + env" where
  "redis_setex w key ttl v =
     (if redis_reachable w then
        (if 0 < ttl
         then Inr (w\<lparr>redis_store := (redis_store w)(key \<mapsto> (v, clock w + of_int ttl))\<rparr>)
         else Inl RedisResponseError)
      else Inl RedisConnectionError)"

definition redis_get :: "env \<Rightarrow> string \<Rightarrow> error + string option" where
  "redis_get w key =
     (if redis_reachable w then
        Inr (case redis_store w key of
               None \<Rightarrow> None
             | Some (v, ex) \<Rightarrow> (if clock w < ex then Some v else None))
      else Inl RedisConnectionError)"

definition redis_delete :: "env \<Rightarrow> string \<Rightarrow> error + env" where
  "redis_delete w key =
     (if redis_reachable w then Inr (w\<lparr>redis_store := (redis_store w)(key := None)\<rparr>)
      else Inl RedisConnectionError)"

definition redis_flushdb :: "env \<Rightarrow> error + env" where
  "redis_flushdb w =
     (if redis_reachable w then Inr (w\<lparr>redis_store := Map.empty\<rparr>)
      else Inl RedisConnectionError)"

subsection \<open>Paths and files\<close>

text \<open>\<open>os.path.join\<close> of two components, as \<open>posixpath\<close> defines it: an absolute
  second component replaces the first.\<close>

definition os_path_join :: "string \<Rightarrow> string \<Rightarrow> string" where
  "os_path_join a b =
     (if take 1 b = ''/'' then b
      else if a = [] \<or> last a = CHR ''/'' then a @ b
      else a @ ''/'' @ b)"

text \<open>A key that is a file name: one path component, as the derived hexadecimal keys
  are. Paths are compared as strings (\<open>.\<close>, \<open>..\<close> and links are not resolved), so it is
  for file names that two different keys are two different files of the directory.\<close>

definition file_name :: "string \<Rightarrow> bool" where
  "file_name k =
     (k \<noteq> [] \<and> CHR ''/'' \<notin> set k \<and> CHR 0x00 \<notin> set k \<and> k \<noteq> ''.'' \<and> k \<noteq> ''..'')"

text \<open>\<open>os.listdir\<close> and \<open>os.path.isfile\<close>: the path is a file directly inside \<open>d\<close>.\<close>

definition in_dir :: "string \<Rightarrow> string \<Rightarrow> bool" where
  "in_dir d p =
     (take (length (os_path_join d [])) p = os_path_join d []
      \<and> file_name (drop (length (os_path_join d [])) p))"

definition json_load :: "file_content \<Rightarrow> error + json" where
  "json_load c = (case c of JsonText j \<Rightarrow> Inr j | NotJson _ \<Rightarrow> Inl JSONDecodeError)"

text \<open>\<open>cache_entry[name]\<close> on a loaded document: only an object that has the member
  gives a value (\<open>KeyError\<close> and \<open>TypeError\<close> otherwise, both caught by the caller).\<close>

definition json_getitem :: "json \<Rightarrow> string \<Rightarrow> json option" where
  "json_getitem j name = (case j of JObj members \<Rightarrow> map_of members name | _ \<Rightarrow> None)"

text \<open>\<open>time.time() < x\<close> for a loaded \<open>x\<close>: defined on numbers and, as Python has it,
  on booleans (\<open>True\<close> is 1); a \<open>TypeError\<close> (\<open>None\<close>) on everything else.\<close>

definition float_lt :: "rat \<Rightarrow> json \<Rightarrow> bool option" where
  "float_lt t j =
     (case j of JNum x \<Rightarrow> Some (t < x)
      | JBool b \<Rightarrow> Some (t < (if b then 1 else 0))
      | _ \<Rightarrow> None)"

section \<open>The operations of \<open>AdvancedCacheManager\<close>\<close>

text \<open>Python's \<open>x in [a, b]\<close> on a list.\<close>

definition is_in :: "'a \<Rightarrow> 'a list \<Rightarrow> bool" where
  "is_in x xs = (x \<in> set xs)"

text \<open>An operation returns what the call returns or raises, together with the object
  and the environment as the call leaves them (also when it raises).\<close>

type_synonym 'a outcome = "(error + 'a) \<times> manager \<times> env"

text \<open>\<open>__init__\<close>: only \<open>redis.ConnectionError\<close> is caught around the ping.
  \<open>module_dir\<close> is \<open>os.path.dirname(__file__)\<close>. \<open>os.makedirs(cache_dir,
  exist_ok=True)\<close> does nothing where the cache directory exists, as it does in the
  environments below: the constructor gives a manager and leaves the environment.\<close>

definition init :: "string \<Rightarrow> string \<Rightarrow> int \<Rightarrow> int \<Rightarrow> string option \<Rightarrow> env \<Rightarrow> manager" where
  "init module_dir redis_host redis_port redis_db cache_dir_arg w =
     \<lparr>redis_client =
        (case redis_ping w of
           Inr _ \<Rightarrow> Some (Redis redis_host redis_port redis_db)
         | Inl _ \<Rightarrow> None),
      cache_dir =
        (case cache_dir_arg of
           None \<Rightarrow> os_path_join module_dir ''cache''
         | Some d \<Rightarrow> (if d = [] then os_path_join module_dir ''cache'' else d)),
      memory_cache = Map.empty\<rparr>"

definition kwargs_dict :: "(string \<times> pyval) list \<Rightarrow> pyval" where
  "kwargs_dict kwargs = PDict (map (\<lambda>(name, v). (PStr name, v)) kwargs)"

text \<open>\<open>_generate_cache_key\<close>: \<open>pickle.dumps((args, kwargs))\<close>, formatted into the
  f-string \<open>f"{func_name}:{serialized_args}"\<close>, hashed.\<close>

definition generate_cache_key ::
  "pylib \<Rightarrow> string \<Rightarrow> pyval list \<Rightarrow> (string \<times> pyval) list \<Rightarrow> error + string" where
  "generate_cache_key L func_name args kwargs =
     (case pickle_dumps L (PTuple [PTuple args, kwargs_dict kwargs]) of
        Inl e \<Rightarrow> Inl e
      | Inr serialized_args \<Rightarrow>
          Inr (sha256_hexdigest L (func_name @ '':'' @ bytes_repr serialized_args)))"

text \<open>\<open>_compress_data\<close> and \<open>_decompress_data\<close>.\<close>

definition compress_data :: "pylib \<Rightarrow> pyval \<Rightarrow> error + string" where
  "compress_data L data =
     (case pickle_dumps L data of Inl e \<Rightarrow> Inl e | Inr b \<Rightarrow> Inr (zlib_compress L b))"

definition decompress_data :: "pylib \<Rightarrow> string \<Rightarrow> error + pyval" where
  "decompress_data L compressed_data =
     (case zlib_decompress L compressed_data of Inl e \<Rightarrow> Inl e | Inr b \<Rightarrow> pickle_loads L b)"

text \<open>
  \<open>set_cache\<close>. The Redis write is inside \<open>try/except Exception\<close>; the disk write is not.
  The disk branch opens the file with mode \<open>'wb'\<close>, which creates or empties it, and
  hands the binary file to \<open>json.dump\<close>, which writes \<open>str\<close> chunks: the first
  \<open>write\<close> raises \<open>TypeError\<close> (a bytes-like object is required), the \<open>with\<close> block
  closes the empty file and the exception leaves \<open>set_cache\<close>. On a path that names
  a directory \<open>open\<close> itself raises \<open>IsADirectoryError\<close> and nothing is written.
\<close>

definition set_cache :: "pylib \<Rightarrow> string \<Rightarrow> pyval \<Rightarrow> int \<Rightarrow> string \<Rightarrow> manager \<times> env \<Rightarrow> unit outcome" where
  "set_cache L key v ttl layer s =
     (case s of (m, w) \<Rightarrow>
      (case compress_data L v of
         Inl e \<Rightarrow> (Inl e, m, w)
       | Inr compressed_value \<Rightarrow>
          (let m1 = (if is_in layer [''memory'', ''multi'']
                     then m\<lparr>memory_cache := (memory_cache m)(key \<mapsto>
                            \<lparr>entry_value = compressed_value,
                             entry_expiry = clock w + of_int ttl\<rparr>)\<rparr>
                     else m);
               w1 = (if is_in layer [''redis'', ''multi''] \<and> redis_client m1 \<noteq> None
                     then (case redis_setex w key ttl compressed_value of
                             Inr w' \<Rightarrow> w'
                           | Inl _ \<Rightarrow> w)
                     else w)
           in if is_in layer [''disk'', ''multi'']
              then (if os_path_join (cache_dir m1) key \<in> directories w1
                    then (Inl IsADirectoryError, m1, w1)
                    else (Inl TypeError, m1,
                          w1\<lparr>files := (files w1)(os_path_join (cache_dir m1) key \<mapsto>
                                               NotJson [])\<rparr>))
              else (Inr (), m1, w1))))"

text \<open>\<open>get_from_memory_cache\<close>: a decoding error is not caught here.\<close>

definition get_from_memory_cache :: "pylib \<Rightarrow> string \<Rightarrow> manager \<times> env \<Rightarrow> pyval outcome" where
  "get_from_memory_cache L key s =
     (case s of (m, w) \<Rightarrow>
      (case memory_cache m key of
         None \<Rightarrow> (Inr PNone, m, w)
       | Some cache_entry \<Rightarrow>
           (if clock w < entry_expiry cache_entry
            then (decompress_data L (entry_value cache_entry), m, w)
            else (Inr PNone, m\<lparr>memory_cache := (memory_cache m)(key := None)\<rparr>, w))))"

text \<open>\<open>get_from_redis_cache\<close>: everything after the client test is inside
  \<open>try/except Exception\<close>, so the call only ever returns a value.\<close>

definition get_from_redis_cache :: "pylib \<Rightarrow> string \<Rightarrow> manager \<times> env \<Rightarrow> pyval" where
  "get_from_redis_cache L key s =
     (case s of (m, w) \<Rightarrow>
      (if redis_client m = None then PNone
       else (case redis_get w key of
               Inl _ \<Rightarrow> PNone
             | Inr None \<Rightarrow> PNone
             | Inr (Some compressed_value) \<Rightarrow>
                 (if compressed_value = [] then PNone
                  else (case decompress_data L compressed_value of
                          Inl _ \<Rightarrow> PNone
                        | Inr v \<Rightarrow> v)))))"

text \<open>\<open>get_from_disk_cache\<close>: reading, the expiry test, decoding and \<open>os.remove\<close> are
  all inside \<open>try/except Exception\<close>; the call returns a value and may remove the file.
  A directory exists as a path and cannot be opened for reading: the error is caught.\<close>

definition get_from_disk_cache :: "pylib \<Rightarrow> string \<Rightarrow> manager \<times> env \<Rightarrow> pyval \<times> env" where
  "get_from_disk_cache L key s =
     (case s of (m, w) \<Rightarrow>
      (let disk_path = os_path_join (cache_dir m) key in
       if disk_path \<in> directories w then (PNone, w) else
       (case files w disk_path of
          None \<Rightarrow> (PNone, w)
        | Some content \<Rightarrow>
           (case json_load content of
              Inl _ \<Rightarrow> (PNone, w)
            | Inr cache_entry \<Rightarrow>
               (case json_getitem cache_entry ''expiry'' of
                  None \<Rightarrow> (PNone, w)
                | Some ex \<Rightarrow>
                   (case float_lt (clock w) ex of
                      None \<Rightarrow> (PNone, w)
                    | Some True \<Rightarrow>
                       (case json_getitem cache_entry ''value'' of
                          Some (JStr text) \<Rightarrow>
                            (case decompress_data L text of
                               Inl _ \<Rightarrow> (PNone, w)
                             | Inr v \<Rightarrow> (v, w))
                        | _ \<Rightarrow> (PNone, w))
                    | Some False \<Rightarrow>
                       (PNone, w\<lparr>files := (files w)(disk_path := None)\<rparr>)))))))"

text \<open>\<open>invalidate_cache\<close>. \<open>if key:\<close> is Python truthiness: \<open>None\<close> and the empty
  string both take the branch that clears the whole layer. With a key, the disk branch
  tests \<open>os.path.exists\<close> and calls \<open>os.remove\<close> outside any \<open>try/except\<close>: a path
  that names a directory exists, and removing it raises \<open>IsADirectoryError\<close>, after the
  memory and Redis entries have gone; a path that does not exist is skipped, which the
  update of the map by \<open>None\<close> covers. The branch without a key catches every error.\<close>

definition truthy :: "string option \<Rightarrow> bool" where
  "truthy key = (case key of None \<Rightarrow> False | Some k \<Rightarrow> k \<noteq> [])"

definition invalidate_cache :: "string option \<Rightarrow> string \<Rightarrow> manager \<times> env \<Rightarrow> unit outcome" where
  "invalidate_cache key layer s =
     (case s of (m, w) \<Rightarrow>
      (let m1 = (if is_in layer [''memory'', ''multi'']
                 then (if truthy key
                       then m\<lparr>memory_cache := (memory_cache m)(the key := None)\<rparr>
                       else m\<lparr>memory_cache := Map.empty\<rparr>)
                 else m);
           w1 = (if is_in layer [''redis'', ''multi''] \<and> redis_client m1 \<noteq> None
                 then (case (if truthy key then redis_delete w (the key) else redis_flushdb w) of
                         Inr w' \<Rightarrow> w'
                       | Inl _ \<Rightarrow> w)
                 else w)
       in if is_in layer [''disk'', ''multi'']
          then (if truthy key
                then (if os_path_join (cache_dir m1) (the key) \<in> directories w1
                      then (Inl IsADirectoryError, m1, w1)
                      else (Inr (), m1,
                            w1\<lparr>files := (files w1)(os_path_join (cache_dir m1) (the key) := None)\<rparr>))
                else (Inr (), m1,
                      w1\<lparr>files := (\<lambda>p. if in_dir (cache_dir m1) p then None else files w1 p)\<rparr>))
          else (Inr (), m1, w1)))"

text \<open>
  The wrapper that the \<open>cache\<close> decorator returns. The cached function \<open>func\<close> acts on
  a state \<open>'u\<close> of the caller's own: it is invoked exactly when that state is passed
  through it. The source's test \<open>result is not None or cache_none\<close> guards the
  write; the model branches on its negation first.
\<close>

definition cache_wrapper ::
  "pylib \<Rightarrow> int \<Rightarrow> bool \<Rightarrow> string \<Rightarrow> string \<Rightarrow>
   (pyval list \<Rightarrow> (string \<times> pyval) list \<Rightarrow> 'u \<Rightarrow> (error + pyval) \<times> 'u) \<Rightarrow>
   pyval list \<Rightarrow> (string \<times> pyval) list \<Rightarrow> manager \<times> env \<times> 'u \<Rightarrow>
   (error + pyval) \<times> manager \<times> env \<times> 'u" where
  "cache_wrapper L ttl cache_none layer func_name func args kwargs s =
     (case s of (m, w, u) \<Rightarrow>
      (case generate_cache_key L func_name args kwargs of
         Inl e \<Rightarrow> (Inl e, m, w, u)
       | Inr cache_key \<Rightarrow>
          (case (if is_in layer [''memory'', ''multi'']
                 then get_from_memory_cache L cache_key (m, w)
                 else (Inr PNone, m, w)) of
             (Inl e, m1, w1) \<Rightarrow> (Inl e, m1, w1, u)
           | (Inr memory_result, m1, w1) \<Rightarrow>
              (if memory_result \<noteq> PNone then (Inr memory_result, m1, w1, u)
               else
                (let redis_result =
                       (if is_in layer [''redis'', ''multi''] \<and> redis_client m1 \<noteq> None
                        then get_from_redis_cache L cache_key (m1, w1)
                        else PNone)
                 in if redis_result \<noteq> PNone then (Inr redis_result, m1, w1, u)
                    else
                     (case (if is_in layer [''disk'', ''multi'']
                            then get_from_disk_cache L cache_key (m1, w1)
                            else (PNone, w1)) of
                        (disk_result, w2) \<Rightarrow>
                          (if disk_result \<noteq> PNone then (Inr disk_result, m1, w2, u)
                           else
                            (case func args kwargs u of
                               (Inl e, u') \<Rightarrow> (Inl e, m1, w2, u')
                             | (Inr result, u') \<Rightarrow>
                                 (if result = PNone \<and> \<not> cache_none
                                  then (Inr result, m1, w2, u')
                                  else
                                   (case set_cache L cache_key result ttl layer (m1, w2) of
                                      (Inl e, m2, w3) \<Rightarrow> (Inl e, m2, w3, u')
                                    | (Inr _, m2, w3) \<Rightarrow> (Inr result, m2, w3, u')))))))))))"

section \<open>A reference instance of the library\<close>

text \<open>
  Concrete inputs need concrete library functions. The instance follows CPython on the
  fragment above: \<open>pickle\<close> protocol 4 (the default of Python 3.8 to 3.13) without
  shared sub-objects, SHA-256 as FIPS 180-4 defines it, and \<open>zlib\<close> streams made of
  stored blocks (what \<open>zlib.compress(data, 0)\<close> emits; the source compresses at the
  default level, whose output differs and decompresses to the same bytes).
\<close>

subsection \<open>Pickle, protocol 4\<close>

text \<open>The byte with the value \<open>n mod 256\<close>.\<close>

definition byte :: "nat \<Rightarrow> char" where
  "byte n = Char (odd n) (odd (n div 2)) (odd (n div 4)) (odd (n div 8))
                 (odd (n div 16)) (odd (n div 32)) (odd (n div 64)) (odd (n div 128))"

definition le_bytes :: "nat \<Rightarrow> nat list \<Rightarrow> string" where
  "le_bytes x places = map (\<lambda>d. byte (x div d)) places"

definition le_nat :: "string \<Rightarrow> nat" where
  "le_nat bs = foldr (\<lambda>c acc. of_char c + 256 * acc) bs 0"

text \<open>The instance covers integers of 32 bits, strings shorter than 256 bytes,
  dictionaries of fewer than 1000 entries whose keys are strings or integers, each key
  once, and pickles below 64 KiB, which CPython writes as one frame; everything else it
  refuses.\<close>

fun hashable :: "pyval \<Rightarrow> bool" where
  "hashable (PStr s) = True"
| "hashable (PInt i) = True"
| "hashable v = False"

fun picklable :: "pyval \<Rightarrow> bool" where
  "picklable PNone = True"
| "picklable (PBool b) = True"
| "picklable (PInt i) = (- 2147483648 \<le> i \<and> i < 2147483648)"
| "picklable (PStr s) = (length s < 256)"
| "picklable (PTuple xs) = list_all picklable xs"
| "picklable (PDict kvs) =
     (length kvs < 1000 \<and> distinct (map fst kvs)
      \<and> list_all (\<lambda>kv. hashable (fst kv) \<and> picklable (fst kv) \<and> picklable (snd kv)) kvs)"
| "picklable PLambda = False"

fun save :: "pyval \<Rightarrow> string" where
  "save PNone = ''N''"
| "save (PBool b) = [if b then CHR 0x88 else CHR 0x89]"
| "save (PInt i) =
     (if 0 \<le> i \<and> i < 256 then [CHR ''K'', byte (nat i)]
      else if 0 \<le> i \<and> i < 65536 then CHR ''M'' # le_bytes (nat i) [1, 256]
      else CHR ''J'' # le_bytes (nat (i mod 4294967296)) [1, 256, 65536, 16777216])"
| "save (PStr s) = [CHR 0x8C, byte (length s)] @ s @ [CHR 0x94]"
| "save (PTuple xs) =
     (if xs = [] then '')''
      else if length xs \<le> 3
        then concat (map save xs) @ [byte (132 + length xs), CHR 0x94]
      else ''('' @ concat (map save xs) @ [CHR ''t'', CHR 0x94])"
| "save (PDict kvs) =
     [CHR ''}'', CHR 0x94] @
     (if kvs = [] then []
      else if length kvs = 1
        then concat (map (\<lambda>kv. save (fst kv) @ save (snd kv)) kvs) @ ''s''
      else ''('' @ concat (map (\<lambda>kv. save (fst kv) @ save (snd kv)) kvs) @ ''u'')"
| "save PLambda = []"

definition frame :: "string \<Rightarrow> string" where
  "frame body =
     [CHR 0x80, CHR 0x04] @
     (if length body < 4 then body
      else CHR 0x95 # le_bytes (length body)
             [1, 256, 65536, 16777216, 4294967296, 1099511627776, 281474976710656,
              72057594037927936] @ body)"

definition ref_pickle_dumps :: "pyval \<Rightarrow> error + string" where
  "ref_pickle_dumps v =
     (if picklable v \<and> length (save v) < 65535 then Inr (frame (save v @ ''.''))
      else Inl PicklingError)"



text \<open>The unpickler: a stack machine over the opcodes the pickler above emits.\<close>

datatype stack_item = Val pyval | Mark

fun pop_mark :: "stack_item list \<Rightarrow> pyval list \<Rightarrow> (pyval list \<times> stack_item list) option" where
  "pop_mark [] acc = None"
| "pop_mark (Mark # st) acc = Some (acc, st)"
| "pop_mark (Val v # st) acc = pop_mark st (v # acc)"

fun dict_setitem :: "(pyval \<times> pyval) list \<Rightarrow> pyval \<Rightarrow> pyval \<Rightarrow> (pyval \<times> pyval) list" where
  "dict_setitem [] k v = [(k, v)]"
| "dict_setitem (kv # rest) k v =
     (if fst kv = k then (k, v) # rest else kv # dict_setitem rest k v)"

fun dict_setitems :: "(pyval \<times> pyval) list \<Rightarrow> pyval list \<Rightarrow> (pyval \<times> pyval) list option" where
  "dict_setitems d [] = Some d"
| "dict_setitems d [k] = None"
| "dict_setitems d (k # v # rest) = dict_setitems (dict_setitem d k v) rest"


fun load :: "string \<Rightarrow> stack_item list \<Rightarrow> error + pyval" where
  "load [] st = Inl UnpicklingError"
| "load (c # r) st =
     (if c = CHR 0x80 then load (drop 1 r) st
      else if c = CHR 0x95 then load (drop 8 r) st
      else if c = CHR 0x94 then load r st
      else if c = CHR ''N'' then load r (Val PNone # st)
      else if c = CHR 0x88 then load r (Val (PBool True) # st)
      else if c = CHR 0x89 then load r (Val (PBool False) # st)
      else if c = CHR ''K'' then
        (if length r < 1 then Inl UnpicklingError
         else load (drop 1 r) (Val (PInt (int (le_nat (take 1 r)))) # st))
      else if c = CHR ''M'' then
        (if length r < 2 then Inl UnpicklingError
         else load (drop 2 r) (Val (PInt (int (le_nat (take 2 r)))) # st))
      else if c = CHR ''J'' then
        (if length r < 4 then Inl UnpicklingError
         else load (drop 4 r)
                (Val (PInt (if le_nat (take 4 r) < 2147483648 then int (le_nat (take 4 r))
                            else int (le_nat (take 4 r)) - 4294967296)) # st))
      else if c = CHR 0x8C then
        (if length r < 1 \<or> length r < 1 + le_nat (take 1 r) then Inl UnpicklingError
         else load (drop (1 + le_nat (take 1 r)) r)
                (Val (PStr (take (le_nat (take 1 r)) (drop 1 r))) # st))
      else if c = CHR '')'' then load r (Val (PTuple []) # st)
      else if c = CHR 0x85 then
        (case st of Val a # st' \<Rightarrow> load r (Val (PTuple [a]) # st')
         | _ \<Rightarrow> Inl UnpicklingError)
      else if c = CHR 0x86 then
        (case st of Val b # Val a # st' \<Rightarrow> load r (Val (PTuple [a, b]) # st')
         | _ \<Rightarrow> Inl UnpicklingError)
      else if c = CHR 0x87 then
        (case st of Val d # Val b # Val a # st' \<Rightarrow> load r (Val (PTuple [a, b, d]) # st')
         | _ \<Rightarrow> Inl UnpicklingError)
      else if c = CHR ''('' then load r (Mark # st)
      else if c = CHR ''t'' then
        (case pop_mark st [] of Some (items, st') \<Rightarrow> load r (Val (PTuple items) # st')
         | None \<Rightarrow> Inl UnpicklingError)
      else if c = CHR ''}'' then load r (Val (PDict []) # st)
      else if c = CHR ''s'' then
        (case st of Val v # Val k # Val (PDict d) # st' \<Rightarrow>
                      load r (Val (PDict (dict_setitem d k v)) # st')
         | _ \<Rightarrow> Inl UnpicklingError)
      else if c = CHR ''u'' then
        (case pop_mark st [] of
           Some (items, Val (PDict d) # st') \<Rightarrow>
             (case dict_setitems d items of
                Some d' \<Rightarrow> load r (Val (PDict d') # st')
              | None \<Rightarrow> Inl UnpicklingError)
         | _ \<Rightarrow> Inl UnpicklingError)
      else if c = CHR ''.'' then
        (case st of Val v # st' \<Rightarrow> Inr v | _ \<Rightarrow> Inl UnpicklingError)
      else Inl UnpicklingError)"

definition ref_pickle_loads :: "string \<Rightarrow> error + pyval" where
  "ref_pickle_loads b = load b []"

subsection \<open>Zlib streams of stored blocks\<close>

fun adler32 :: "string \<Rightarrow> nat \<Rightarrow> nat \<Rightarrow> nat" where
  "adler32 [] a b = b * 65536 + a"
| "adler32 (c # cs) a b = adler32 cs ((a + of_char c) mod 65521) ((b + (a + of_char c) mod 65521) mod 65521)"

definition be_bytes4 :: "nat \<Rightarrow> string" where
  "be_bytes4 x = le_bytes x [16777216, 65536, 256, 1]"

function stored_blocks :: "string \<Rightarrow> string" where
  "stored_blocks b =
     (if length b \<le> 65535
      then CHR 0x01 # le_bytes (length b) [1, 256] @ le_bytes (65535 - length b) [1, 256] @ b
      else CHR 0x00 # le_bytes 65535 [1, 256] @ le_bytes 0 [1, 256] @ take 65535 b @
           stored_blocks (drop 65535 b))"
  by pat_completeness auto
termination
  by (relation "measure length") auto

definition ref_zlib_compress :: "string \<Rightarrow> string" where
  "ref_zlib_compress b = [CHR 0x78, CHR 0x01] @ stored_blocks b @ be_bytes4 (adler32 b 1 0)"

fun inflate_stored :: "string \<Rightarrow> (string \<times> string) option" where
  "inflate_stored (h # l0 # l1 # n0 # n1 # r) =
     (if le_nat [n0, n1] = 65535 - le_nat [l0, l1] \<and> le_nat [l0, l1] \<le> length r then
        (if h = CHR 0x01 then Some (take (le_nat [l0, l1]) r, drop (le_nat [l0, l1]) r)
         else if h = CHR 0x00 then
           (case inflate_stored (drop (le_nat [l0, l1]) r) of
              Some (d, rest) \<Rightarrow> Some (take (le_nat [l0, l1]) r @ d, rest)
            | None \<Rightarrow> None)
         else None)
      else None)"
| "inflate_stored _ = None"

definition ref_zlib_decompress :: "string \<Rightarrow> error + string" where
  "ref_zlib_decompress c =
     (if take 2 c = [CHR 0x78, CHR 0x01] then
        (case inflate_stored (drop 2 c) of
           Some (d, trailer) \<Rightarrow>
             (if trailer = be_bytes4 (adler32 d 1 0) then Inr d else Inl ZlibError)
         | None \<Rightarrow> Inl ZlibError)
      else Inl ZlibError)"

subsection \<open>SHA-256\<close>

text \<open>A 32-bit word is a natural number below \<open>2^32\<close>; additions wrap around by an
  explicit \<open>mod\<close>.\<close>

definition add32 :: "nat \<Rightarrow> nat \<Rightarrow> nat" where
  "add32 a b = (a + b) mod 4294967296"

definition rotr :: "nat \<Rightarrow> nat \<Rightarrow> nat" where
  "rotr n x = (x div 2 ^ n) OR ((x * 2 ^ (32 - n)) mod 4294967296)"

definition ch :: "nat \<Rightarrow> nat \<Rightarrow> nat \<Rightarrow> nat" where
  "ch x y z = (x AND y) XOR ((4294967295 - x) AND z)"

definition maj :: "nat \<Rightarrow> nat \<Rightarrow> nat \<Rightarrow> nat" where
  "maj x y z = (x AND y) XOR (x AND z) XOR (y AND z)"

definition bsig0 :: "nat \<Rightarrow> nat" where
  "bsig0 x = rotr 2 x XOR rotr 13 x XOR rotr 22 x"

definition bsig1 :: "nat \<Rightarrow> nat" where
  "bsig1 x = rotr 6 x XOR rotr 11 x XOR rotr 25 x"

definition ssig0 :: "nat \<Rightarrow> nat" where
  "ssig0 x = rotr 7 x XOR rotr 18 x XOR (x div 2 ^ 3)"

definition ssig1 :: "nat \<Rightarrow> nat" where
  "ssig1 x = rotr 17 x XOR rotr 19 x XOR (x div 2 ^ 10)"

definition sha256_k :: "nat list" where
  "sha256_k =
    [1116352408, 1899447441, 3049323471, 3921009573, 961987163, 1508970993, 2453635748,
     2870763221, 3624381080, 310598401, 607225278, 1426881987, 1925078388, 2162078206,
     2614888103, 3248222580, 3835390401, 4022224774, 264347078, 604807628, 770255983,
     1249150122, 1555081692, 1996064986, 2554220882, 2821834349, 2952996808, 3210313671,
     3336571891, 3584528711, 113926993, 338241895, 666307205, 773529912, 1294757372,
     1396182291, 1695183700, 1986661051, 2177026350, 2456956037, 2730485921, 2820302411,
     3259730800, 3345764771, 3516065817, 3600352804, 4094571909, 275423344, 430227734,
     506948616, 659060556, 883997877, 958139571, 1322822218, 1537002063, 1747873779,
     1955562222, 2024104815, 2227730452, 2361852424, 2428436474, 2756734187, 3204031479,
     3329325298]"

definition sha256_h0 :: "nat list" where
  "sha256_h0 =
    [1779033703, 3144134277, 1013904242, 2773480762, 1359893119, 2600822924, 528734635,
     1541459225]"

text \<open>One round on the working variables \<open>[a, b, c, d, e, f, g, h]\<close>; \<open>kw\<close> is the
  round constant plus the schedule word.\<close>

definition rotate_in :: "nat \<Rightarrow> nat \<Rightarrow> nat list \<Rightarrow> nat list" where
  "rotate_in t1 t2 s = [add32 t1 t2, s ! 0, s ! 1, s ! 2, add32 (s ! 3) t1, s ! 4, s ! 5, s ! 6]"

definition round_step :: "nat list \<Rightarrow> nat \<Rightarrow> nat list" where
  "round_step s kw =
     rotate_in (add32 (add32 (add32 (s ! 7) (bsig1 (s ! 4))) (ch (s ! 4) (s ! 5) (s ! 6))) kw)
               (add32 (bsig0 (s ! 0)) (maj (s ! 0) (s ! 1) (s ! 2))) s"

text \<open>The 64 rounds, one per round constant; \<open>ws\<close> holds the sixteen most recent
  words of the message schedule.\<close>

fun sha_rounds :: "nat list \<Rightarrow> nat list \<Rightarrow> nat list \<Rightarrow> nat list" where
  "sha_rounds [] ws s = s"
| "sha_rounds (k # ks) ws s =
     sha_rounds ks
       (tl ws @ [add32 (add32 (add32 (ssig1 (ws ! 14)) (ws ! 9)) (ssig0 (ws ! 1))) (ws ! 0)])
       (round_step s (add32 k (ws ! 0)))"

definition compress :: "nat list \<Rightarrow> nat list \<Rightarrow> nat list" where
  "compress hs block = map2 add32 hs (sha_rounds sha256_k block hs)"

fun be_words :: "nat list \<Rightarrow> nat list" where
  "be_words (a # b # c # d # rest) = (((a * 256 + b) * 256 + c) * 256 + d) # be_words rest"
| "be_words _ = []"

fun sha_blocks :: "nat list \<Rightarrow> nat list \<Rightarrow> nat list" where
  "sha_blocks hs [] = hs"
| "sha_blocks hs (w # ws) = sha_blocks (compress hs (take 16 (w # ws))) (drop 16 (w # ws))"

definition be_nat_bytes :: "nat \<Rightarrow> nat list \<Rightarrow> nat list" where
  "be_nat_bytes x places = map (\<lambda>d. (x div d) mod 256) places"

definition sha256_pad :: "nat list \<Rightarrow> nat list" where
  "sha256_pad msg =
     msg @ [128] @ replicate ((119 - length msg mod 64) mod 64) 0 @
     be_nat_bytes (8 * length msg)
       [72057594037927936, 281474976710656, 1099511627776, 4294967296, 16777216, 65536, 256, 1]"

definition sha256 :: "nat list \<Rightarrow> nat list" where
  "sha256 msg = sha_blocks sha256_h0 (be_words (sha256_pad msg))"

definition hex_word :: "nat \<Rightarrow> string" where
  "hex_word x =
     map (\<lambda>d. hex_digit (x div d)) [268435456, 16777216, 1048576, 65536, 4096, 256, 16, 1]"

definition ref_sha256_hexdigest :: "string \<Rightarrow> string" where
  "ref_sha256_hexdigest s = concat (map hex_word (sha256 (map of_char s)))"

subsection \<open>The instance, and a cached function with a call counter\<close>

definition ref_lib :: pylib where
  "ref_lib =
     \<lparr>pickle_dumps = ref_pickle_dumps,
      pickle_loads = ref_pickle_loads,
      zlib_compress = ref_zlib_compress,
      zlib_decompress = ref_zlib_decompress,
      sha256_hexdigest = ref_sha256_hexdigest\<rparr>"

text \<open>\<open>lambda x: x * x\<close> and \<open>lambda: None\<close>; the caller's state counts the calls.\<close>

definition square :: "pyval list \<Rightarrow> (string \<times> pyval) list \<Rightarrow> nat \<Rightarrow> (error + pyval) \<times> nat" where
  "square args kwargs calls =
     (case (args, kwargs) of
        ([PInt x], []) \<Rightarrow> (Inr (PInt (x * x)), calls + 1)
      | _ \<Rightarrow> (Inl (UserError ''TypeError''), calls + 1))"

definition nothing :: "pyval list \<Rightarrow> (string \<times> pyval) list \<Rightarrow> nat \<Rightarrow> (error + pyval) \<times> nat" where
  "nothing args kwargs calls = (Inr PNone, calls + 1)"

text \<open>An environment whose Redis server cannot be reached and whose disk holds the
  empty cache directory, at clock reading 1000; and a manager constructed in it.\<close>

definition env0 :: env where
  "env0 =
     \<lparr>clock = 1000, redis_reachable = False, redis_store = Map.empty, files = Map.empty,
      directories =
        {''/srv/app/cache'', ''/srv/app/cache/'', ''/srv/app/cache/.'', ''/srv/app/cache/..''}\<rparr>"

definition manager0 :: manager where
  "manager0 = init ''/srv/app'' ''localhost'' 6379 0 None env0"

text \<open>The encoding of \<open>16\<close> and of \<open>None\<close>; a manager whose memory table holds
  two entries that expire at 1060; an environment whose disk holds the cache directory
  and in it an entry file for the key \<open>a\<close> with the same expiry.\<close>

definition payload16 :: string where
  "payload16 = ref_zlib_compress [CHR 0x80, CHR 0x04, CHR ''K'', CHR 0x10, CHR ''.'']"

definition payloadNone :: string where
  "payloadNone = ref_zlib_compress [CHR 0x80, CHR 0x04, CHR ''N'', CHR ''.'']"

definition manager1 :: manager where
  "manager1 =
     \<lparr>redis_client = None, cache_dir = ''/srv/app/cache'',
      memory_cache =
        [''a'' \<mapsto> \<lparr>entry_value = payload16, entry_expiry = 1060\<rparr>,
         ''b'' \<mapsto> \<lparr>entry_value = payload16, entry_expiry = 1060\<rparr>]\<rparr>"

definition env1 :: env where
  "env1 =
     \<lparr>clock = 1000, redis_reachable = False, redis_store = Map.empty,
      files =
        [''/srv/app/cache/a'' \<mapsto>
           JsonText (JObj [(''value'', JStr payload16), (''expiry'', JNum 1060)])],
      directories =
        {''/srv/app/cache'', ''/srv/app/cache/'', ''/srv/app/cache/.'', ''/srv/app/cache/..''}\<rparr>"

text \<open>The messages that the key derivation hashes for the calls \<open>square(4)\<close> and
  \<open>nothing()\<close>, and the keys.\<close>

definition square_key :: string where
  "square_key = ref_sha256_hexdigest (''square:'' @ bytes_repr
     [CHR 0x80, CHR 0x04, CHR 0x95, CHR 0x09, CHR 0x00, CHR 0x00, CHR 0x00, CHR 0x00, CHR 0x00,
      CHR 0x00, CHR 0x00, CHR ''K'', CHR 0x04, CHR 0x85, CHR 0x94, CHR ''}'', CHR 0x94, CHR 0x86,
      CHR 0x94, CHR ''.''])"

definition nothing_key :: string where
  "nothing_key = ref_sha256_hexdigest (''nothing:'' @ bytes_repr
     [CHR 0x80, CHR 0x04, CHR 0x95, CHR 0x06, CHR 0x00, CHR 0x00, CHR 0x00, CHR 0x00, CHR 0x00,
      CHR 0x00, CHR 0x00, CHR '')'', CHR ''}'', CHR 0x94, CHR 0x86, CHR 0x94, CHR ''.''])"

section \<open>Evaluation of the reference instance\<close>

lemma Suc_Suc_0: "Suc (Suc 0) = 2"
  by simp



lemmas ref_eval =
  byte_def Suc_Suc_0 ref_pickle_dumps_def ref_pickle_loads_def frame_def le_bytes_def
  le_nat_def ref_zlib_compress_def ref_zlib_decompress_def be_bytes4_def kwargs_dict_def

lemma ref_lib_sel:
  "pickle_dumps ref_lib = ref_pickle_dumps"
  "pickle_loads ref_lib = ref_pickle_loads"
  "zlib_compress ref_lib = ref_zlib_compress"
  "zlib_decompress ref_lib = ref_zlib_decompress"
  "sha256_hexdigest ref_lib = ref_sha256_hexdigest"
  by (simp_all add: ref_lib_def)

lemma manager0_eq:
  "manager0 = \<lparr>redis_client = None, cache_dir = ''/srv/app/cache'', memory_cache = Map.empty\<rparr>"
  by (simp add: manager0_def init_def env0_def redis_ping_def os_path_join_def)

text \<open>The reference codec on the values the examples use: \<open>16\<close> and \<open>None\<close>.\<close>

lemma ref_dumps_16: "ref_pickle_dumps (PInt 16) = Inr [CHR 0x80, CHR 0x04, CHR ''K'', CHR 0x10, CHR ''.'']"
  by (simp add: ref_eval)

lemma ref_loads_16: "ref_pickle_loads [CHR 0x80, CHR 0x04, CHR ''K'', CHR 0x10, CHR ''.''] = Inr (PInt 16)"
  by (simp add: ref_eval)

lemma ref_zlib_16:
  "ref_zlib_decompress (ref_zlib_compress [CHR 0x80, CHR 0x04, CHR ''K'', CHR 0x10, CHR ''.''])
   = Inr [CHR 0x80, CHR 0x04, CHR ''K'', CHR 0x10, CHR ''.'']"
  by (simp add: ref_eval)

lemma ref_compress_16: "compress_data ref_lib (PInt 16) = Inr payload16"
  by (simp add: compress_data_def ref_lib_sel ref_dumps_16 payload16_def)

lemma ref_decompress_16: "decompress_data ref_lib payload16 = Inr (PInt 16)"
  by (simp add: decompress_data_def ref_lib_sel ref_zlib_16 ref_loads_16 payload16_def)

lemma ref_compress_None: "compress_data ref_lib PNone = Inr payloadNone"
  by (simp add: compress_data_def ref_lib_sel ref_eval payloadNone_def)

lemma ref_decompress_None: "decompress_data ref_lib payloadNone = Inr PNone"
  by (simp add: decompress_data_def ref_lib_sel ref_eval payloadNone_def)

lemma payload_nonempty: "payload16 \<noteq> []" "payloadNone \<noteq> []"
  by (simp_all add: payload16_def payloadNone_def ref_zlib_compress_def)

section \<open>Round trips of the reference instance\<close>































section \<open>Frame lemmas and round trips of the tiers\<close>

lemma file_name_relative: "file_name k \<Longrightarrow> take 1 k \<noteq> ''/''"
  by (cases k) (auto simp: file_name_def)

lemma os_path_join_inj:
  assumes "file_name k" and "file_name k'"
  shows "os_path_join d k = os_path_join d k' \<longleftrightarrow> k = k'"
  using file_name_relative [OF assms(1)] file_name_relative [OF assms(2)]
  by (simp add: os_path_join_def)


lemma is_in_eval: "is_in x [] = False" "is_in x (y # ys) = (x = y \<or> is_in x ys)"
  by (auto simp: is_in_def)

lemma set_cache_frame:
  assumes "set_cache L k v ttl layer (m, w) = (r, m', w')"
  shows "(\<forall>k'. k' \<noteq> k \<longrightarrow>
            memory_cache m' k' = memory_cache m k' \<and> redis_store w' k' = redis_store w k')
       \<and> (\<forall>p. p \<noteq> os_path_join (cache_dir m) k \<longrightarrow> files w' p = files w p)
       \<and> redis_client m' = redis_client m \<and> cache_dir m' = cache_dir m
       \<and> clock w' = clock w \<and> redis_reachable w' = redis_reachable w
       \<and> directories w' = directories w"
  using assms
  by (auto simp: set_cache_def redis_setex_def Let_def split: if_splits sum.splits)

lemma get_memory_frame:
  assumes "get_from_memory_cache L k (m, w) = (r, m', w')"
  shows "w' = w \<and> redis_client m' = redis_client m \<and> cache_dir m' = cache_dir m
       \<and> (\<forall>k'. k' \<noteq> k \<longrightarrow> memory_cache m' k' = memory_cache m k')
       \<and> (memory_cache m' k = memory_cache m k
           \<or> memory_cache m' k = None \<and>
             (\<exists>e. memory_cache m k = Some e \<and> entry_expiry e \<le> clock w))"
  using assms
  by (auto simp: get_from_memory_cache_def split: option.splits if_splits)

lemma get_disk_frame:
  assumes "get_from_disk_cache L k (m, w) = (r, w')"
  shows "clock w' = clock w \<and> redis_reachable w' = redis_reachable w
       \<and> redis_store w' = redis_store w
       \<and> (\<forall>p. p \<noteq> os_path_join (cache_dir m) k \<longrightarrow> files w' p = files w p)
       \<and> (files w' (os_path_join (cache_dir m) k) = files w (os_path_join (cache_dir m) k)
           \<or> files w' (os_path_join (cache_dir m) k) = None \<and>
             (\<exists>doc ex. files w (os_path_join (cache_dir m) k) = Some (JsonText doc)
                 \<and> json_getitem doc ''expiry'' = Some ex
                 \<and> float_lt (clock w) ex = Some False))"
  using assms
  by (auto simp: get_from_disk_cache_def json_load_def Let_def
           split: option.splits if_splits sum.splits file_content.splits json.splits
                  bool.splits)

lemma expiry_aux_memory:
  assumes "memory_cache m k = Some e"
  shows "(entry_expiry e \<le> clock w \<longrightarrow>
            get_from_memory_cache L k (m, w) =
              (Inr PNone, m\<lparr>memory_cache := (memory_cache m)(k := None)\<rparr>, w))
       \<and> (clock w < entry_expiry e \<longrightarrow>
            get_from_memory_cache L k (m, w) = (decompress_data L (entry_value e), m, w))"
  using assms by (auto simp: get_from_memory_cache_def)

lemma expiry_aux_disk:
  assumes "os_path_join (cache_dir m) k \<notin> directories w"
    and "files w (os_path_join (cache_dir m) k) = Some (JsonText (JObj members))"
    and "map_of members ''expiry'' = Some (JNum ex)"
    and "map_of members ''value'' = Some (JStr payload)"
  shows "(ex \<le> clock w \<longrightarrow>
            get_from_disk_cache L k (m, w) =
              (PNone, w\<lparr>files := (files w)(os_path_join (cache_dir m) k := None)\<rparr>))
       \<and> (clock w < ex \<and> decompress_data L payload = Inr v \<longrightarrow>
            get_from_disk_cache L k (m, w) = (v, w))"
  using assms
  by (auto simp: get_from_disk_cache_def json_load_def json_getitem_def float_lt_def Let_def)

lemma set_cache_memory_entry:
  assumes "compress_data L v = Inr c" and "is_in layer [''memory'', ''multi'']"
    and "set_cache L k v ttl layer (m, w) = (r, m', w')"
  shows "memory_cache m' k = Some \<lparr>entry_value = c, entry_expiry = clock w + of_int ttl\<rparr>"
  using assms by (auto simp: set_cache_def Let_def split: if_splits)

text \<open>Setting and then getting in the memory tier, and in the Redis tier while the
  server is reachable, returns the value (with the codec's round trip at that value).\<close>

lemma memory_round_trip:
  assumes "compress_data L v = Inr c" and "decompress_data L c = Inr v" and "0 < ttl"
    and "is_in layer [''memory'', ''multi'']"
    and "set_cache L k v ttl layer (m, w) = (r, m', w')"
  shows "fst (get_from_memory_cache L k (m', w')) = Inr v"
  using assms
  by (auto simp: set_cache_def get_from_memory_cache_def redis_setex_def Let_def
           split: if_splits sum.splits)

lemma redis_round_trip:
  assumes "compress_data L v = Inr c" and "decompress_data L c = Inr v" and "0 < ttl"
    and "c \<noteq> []" and "is_in layer [''redis'', ''multi'']"
    and "redis_client m \<noteq> None" and "redis_reachable w"
    and "set_cache L k v ttl layer (m, w) = (r, m', w')"
  shows "get_from_redis_cache L k (m', w') = v"
  using assms
  by (auto simp: set_cache_def get_from_redis_cache_def redis_setex_def redis_get_def Let_def
           split: if_splits sum.splits)

text \<open>Every write to the disk tier raises, for every library and value.\<close>

lemma set_cache_disk_raises:
  assumes "compress_data L v = Inr c" and "is_in layer [''disk'', ''multi'']"
  shows "fst (set_cache L k v ttl layer (m, w)) =
         (if os_path_join (cache_dir m) k \<in> directories w then Inl IsADirectoryError
          else Inl TypeError)"
  using assms
  by (auto simp: set_cache_def redis_setex_def Let_def split: if_splits sum.splits)

text \<open>Without a client the Redis tier is never contacted: the result does not depend
  on the environment. No operation assigns \<open>redis_client\<close> after \<open>__init__\<close>.\<close>

lemma redis_get_no_client:
  assumes "redis_client m = None"
  shows "get_from_redis_cache L k (m, w) = PNone"
  using assms by (simp add: get_from_redis_cache_def)

lemma init_unreachable:
  assumes "\<not> redis_reachable w"
  shows "redis_client (init module_dir host port db dir w) = None"
  using assms by (simp add: init_def redis_ping_def)


lemma unknown_layer_aux:
  assumes "layer \<notin> set [''memory'', ''redis'', ''disk'', ''multi'']"
  shows "cache_wrapper L ttl cache_none layer func_name func args kwargs (m, w, u) =
    (case generate_cache_key L func_name args kwargs of
       Inl e \<Rightarrow> (Inl e, m, w, u)
     | Inr k \<Rightarrow>
        (case func args kwargs u of
           (Inl e, u') \<Rightarrow> (Inl e, m, w, u')
         | (Inr result, u') \<Rightarrow>
             (if result = PNone \<and> \<not> cache_none then (Inr result, m, w, u')
              else (case compress_data L result of
                      Inl e \<Rightarrow> (Inl e, m, w, u')
                    | Inr c \<Rightarrow> (Inr result, m, w, u')))))"
  using assms
  by (auto simp: cache_wrapper_def set_cache_def is_in_def split: sum.splits prod.splits)

text \<open>A derived key is a digest of 64 hexadecimal digits, hence a file name; in the
  cache directory of the examples its path is not one of the directory's own.\<close>

lemma length_sha_rounds: "length s = 8 \<Longrightarrow> length (sha_rounds ks ws s) = 8"
  by (induction ks arbitrary: ws s) (simp_all add: round_step_def rotate_in_def)

lemma length_compress: "length hs = 8 \<Longrightarrow> length (compress hs block) = 8"
  by (simp add: compress_def length_sha_rounds)

lemma length_sha_blocks: "length hs = 8 \<Longrightarrow> length (sha_blocks hs ws) = 8"
  by (induction hs ws rule: sha_blocks.induct) (simp_all add: length_compress)

lemma length_sha256: "length (sha256 msg) = 8"
  by (simp add: sha256_def length_sha_blocks sha256_h0_def)

lemma hex_digit_range: "hex_digit n \<in> set ''0123456789abcdef''"
  unfolding hex_digit_def by (rule nth_mem) simp

lemma hex_word_chars: "set (hex_word x) \<subseteq> set ''0123456789abcdef''"
  unfolding hex_word_def set_map using hex_digit_range by blast

lemma length_hex_words: "length (concat (map hex_word ws)) = 8 * length ws"
  by (induction ws) (simp_all add: hex_word_def)

lemma digest_length: "length (ref_sha256_hexdigest s) = 64"
  by (simp add: ref_sha256_hexdigest_def length_hex_words length_sha256)

lemma digest_chars: "set (ref_sha256_hexdigest s) \<subseteq> set ''0123456789abcdef''"
  unfolding ref_sha256_hexdigest_def set_concat set_map using hex_word_chars by blast

lemma digest_file_name: "file_name (ref_sha256_hexdigest s)"
proof -
  have "CHR ''/'' \<notin> set (ref_sha256_hexdigest s)" "CHR 0x00 \<notin> set (ref_sha256_hexdigest s)"
    using digest_chars [of s] by auto
  moreover have "ref_sha256_hexdigest s \<noteq> []" "ref_sha256_hexdigest s \<noteq> ''.''"
    "ref_sha256_hexdigest s \<noteq> ''..''"
    using digest_length [of s] by auto
  ultimately show ?thesis
    by (simp add: file_name_def)
qed

lemma file_name_path:
  assumes "file_name k"
  shows "os_path_join ''/srv/app/cache'' k = ''/srv/app/cache/'' @ k"
    and "os_path_join ''/srv/app/cache'' k \<noteq> ''/srv/app/cache''"
    and "os_path_join ''/srv/app/cache'' k \<noteq> ''/srv/app/cache/''"
    and "os_path_join ''/srv/app/cache'' k \<noteq> ''/srv/app/cache/.''"
    and "os_path_join ''/srv/app/cache'' k \<noteq> ''/srv/app/cache/..''"
  using assms file_name_relative [OF assms]
  by (simp_all add: os_path_join_def file_name_def)

text \<open>The derived keys of the two example calls; the digest is left unevaluated.\<close>

lemma key_square: "generate_cache_key ref_lib ''square'' [PInt 4] [] = Inr square_key"
  by (simp add: generate_cache_key_def ref_lib_sel ref_eval square_key_def)

lemma key_nothing: "generate_cache_key ref_lib ''nothing'' [] [] = Inr nothing_key"
  by (simp add: generate_cache_key_def ref_lib_sel ref_eval nothing_key_def)

lemma square_key_path:
  "os_path_join ''/srv/app/cache'' square_key = ''/srv/app/cache/'' @ square_key"
  "os_path_join ''/srv/app/cache'' square_key \<noteq> ''/srv/app/cache''"
  "os_path_join ''/srv/app/cache'' square_key \<noteq> ''/srv/app/cache/''"
  "os_path_join ''/srv/app/cache'' square_key \<noteq> ''/srv/app/cache/.''"
  "os_path_join ''/srv/app/cache'' square_key \<noteq> ''/srv/app/cache/..''"
  unfolding square_key_def by (rule file_name_path, rule digest_file_name)+

lemma square_4: "square [PInt 4] [] n = (Inr (PInt 16), n + 1)"
  by (simp add: square_def)

lemma nothing_eq: "nothing [] [] n = (Inr PNone, n + 1)"
  by (simp add: nothing_def)

section \<open>The codec\<close>




section \<open>Tier policy\<close>

text \<open>
  C4 (as amended). The tier-policy values the code acts on are \<open>memory\<close>, \<open>redis\<close>,
  \<open>disk\<close> and \<open>multi\<close>. A call of the wrapper with any other value (\<open>remote\<close>
  included) raises no configuration error: no tier is read or written, the cached
  function is invoked, and its result is returned with the manager and the environment
  unchanged. The result is still serialised before the layer is looked at, so the only
  errors are those of the key derivation, of the function, and of pickling its result.
\<close>

theorem unknown_layer_no_caching:
  assumes "layer \<notin> set [''memory'', ''redis'', ''disk'', ''multi'']"
  shows "cache_wrapper L ttl cache_none layer func_name func args kwargs (m, w, u) =
    (case generate_cache_key L func_name args kwargs of
       Inl e \<Rightarrow> (Inl e, m, w, u)
     | Inr k \<Rightarrow>
        (case func args kwargs u of
           (Inl e, u') \<Rightarrow> (Inl e, m, w, u')
         | (Inr result, u') \<Rightarrow>
             (if result = PNone \<and> \<not> cache_none then (Inr result, m, w, u')
              else (case compress_data L result of
                      Inl e \<Rightarrow> (Inl e, m, w, u')
                    | Inr c \<Rightarrow> (Inr result, m, w, u')))))"
  using assms by (rule unknown_layer_aux)

theorem unknown_layer_no_caching_witness:
  "''remote'' \<notin> set [''memory'', ''redis'', ''disk'', ''multi'']
   \<and> cache_wrapper ref_lib 60 False ''remote'' ''square'' square [PInt 4] []
         (manager0, env0, 0) = (Inr (PInt 16), manager0, env0, 1)"
proof -
  have h: "''remote'' \<notin> set [''memory'', ''redis'', ''disk'', ''multi'']"
    by simp
  show ?thesis
    using h unknown_layer_no_caching [OF h, of ref_lib 60 False "''square''" square "[PInt 4]" "[]"
        manager0 env0 0]
    by (simp add: key_square square_4 ref_compress_16)
qed

text \<open>The claim as stated fails: a call with the value \<open>bogus\<close> returns 16.\<close>

theorem unknown_layer_counterexample:
  "cache_wrapper ref_lib 60 False ''bogus'' ''square'' square [PInt 4] [] (manager0, env0, 0)
   = (Inr (PInt 16), manager0, env0, 1)"
  by (simp add: unknown_layer_aux key_square square_4 ref_compress_16)

section \<open>Invalidation\<close>




section \<open>Per-key isolation\<close>

text \<open>
  C10 (as amended). For distinct keys \<open>k\<close> and \<open>k'\<close>: \<open>set_cache(k, v, ttl, layer)\<close>
  leaves the entry of \<open>k'\<close> as it was in the memory table and in Redis, whether it
  returns or raises, and changes no file but the one at the path of \<open>k\<close>, so that the
  file of \<open>k'\<close> is as it was when both keys are file names;
  \<open>get_from_memory_cache(k)\<close> and \<open>get_from_disk_cache(k)\<close> leave every other
  entry as it was, and change the entry of \<open>k\<close> only by deleting it, and only when it
  has expired. (\<open>get_from_redis_cache\<close> returns a value and no state: it changes nothing.)
\<close>

theorem per_key_isolation:
  assumes "k' \<noteq> k"
  shows "(case set_cache L k v ttl layer (m, w) of (r, m', w') \<Rightarrow>
            memory_cache m' k' = memory_cache m k'
          \<and> redis_store w' k' = redis_store w k'
          \<and> (\<forall>p. p \<noteq> os_path_join (cache_dir m) k \<longrightarrow> files w' p = files w p)
          \<and> (file_name k \<and> file_name k' \<longrightarrow>
               files w' (os_path_join (cache_dir m) k') = files w (os_path_join (cache_dir m) k')))
       \<and> (case get_from_memory_cache L k (m, w) of (r, m', w') \<Rightarrow>
            memory_cache m' k' = memory_cache m k' \<and> w' = w
          \<and> (memory_cache m' k = memory_cache m k
              \<or> memory_cache m' k = None \<and>
                (\<exists>e. memory_cache m k = Some e \<and> entry_expiry e \<le> clock w)))
       \<and> (case get_from_disk_cache L k (m, w) of (r, w') \<Rightarrow>
            (\<forall>p. p \<noteq> os_path_join (cache_dir m) k \<longrightarrow> files w' p = files w p)
          \<and> (file_name k \<and> file_name k' \<longrightarrow>
               files w' (os_path_join (cache_dir m) k') = files w (os_path_join (cache_dir m) k'))
          \<and> redis_store w' = redis_store w
          \<and> (files w' (os_path_join (cache_dir m) k) = files w (os_path_join (cache_dir m) k)
              \<or> files w' (os_path_join (cache_dir m) k) = None \<and>
                (\<exists>doc ex. files w (os_path_join (cache_dir m) k) = Some (JsonText doc)
                    \<and> json_getitem doc ''expiry'' = Some ex
                    \<and> float_lt (clock w) ex = Some False)))"
proof -
  obtain r1 m1 w1 where s: "set_cache L k v ttl layer (m, w) = (r1, m1, w1)"
    by (cases "set_cache L k v ttl layer (m, w)") auto
  obtain r2 m2 w2 where g: "get_from_memory_cache L k (m, w) = (r2, m2, w2)"
    by (cases "get_from_memory_cache L k (m, w)") auto
  obtain r3 w3 where d: "get_from_disk_cache L k (m, w) = (r3, w3)"
    by (cases "get_from_disk_cache L k (m, w)") auto
  have neq: "file_name k \<and> file_name k' \<longrightarrow>
             os_path_join (cache_dir m) k' \<noteq> os_path_join (cache_dir m) k"
    using assms by (simp add: os_path_join_inj)
  show ?thesis
    using set_cache_frame [OF s] get_memory_frame [OF g] get_disk_frame [OF d] assms neq
    by (simp add: s g d)
qed

theorem per_key_isolation_witness:
  "''b'' \<noteq> ''a'' \<and> file_name ''a'' \<and> file_name ''b''
   \<and> memory_cache (fst (snd (set_cache ref_lib ''a'' (PInt 16) 60 ''multi'' (manager1, env1)))) ''b''
       = memory_cache manager1 ''b''
   \<and> files (snd (snd (set_cache ref_lib ''a'' (PInt 16) 60 ''multi'' (manager1, env1))))
        (os_path_join (cache_dir manager1) ''b'') = files env1 (os_path_join (cache_dir manager1) ''b'')
   \<and> memory_cache (fst (snd (get_from_memory_cache ref_lib ''a''
        (manager1, env1\<lparr>clock := 2000\<rparr>)))) ''b'' = memory_cache manager1 ''b''
   \<and> files (snd (get_from_disk_cache ref_lib ''a'' (manager1, env1\<lparr>clock := 2000\<rparr>)))
        (os_path_join (cache_dir manager1) ''b'') = files env1 (os_path_join (cache_dir manager1) ''b'')"
proof -
  have h: "''b'' \<noteq> ''a''"
    by simp
  have f: "file_name ''a''" "file_name ''b''"
    by (simp_all add: file_name_def)
  show ?thesis
    using h f per_key_isolation [OF h, where L = ref_lib and v = "PInt 16" and ttl = 60
        and layer = "''multi''" and m = manager1 and w = env1]
      per_key_isolation [OF h, where L = ref_lib and v = "PInt 16" and ttl = 60
        and layer = "''multi''" and m = manager1 and w = "env1\<lparr>clock := 2000\<rparr>"]
    by (simp add: case_prod_unfold)
qed

text \<open>The claim as stated fails on disk for a key that is not a file name: the key
  \<open>/srv/app/cache/a\<close> differs from the key \<open>a\<close> and names the same file, so writing
  it empties the entry file stored under \<open>a\<close>.\<close>

theorem per_key_isolation_counterexample:
  "''/srv/app/cache/a'' \<noteq> ''a''
   \<and> files env1 (os_path_join (cache_dir manager1) ''a'')
       = Some (JsonText (JObj [(''value'', JStr payload16), (''expiry'', JNum 1060)]))
   \<and> files (snd (snd (set_cache ref_lib ''/srv/app/cache/a'' (PInt 16) 60 ''disk''
        (manager1, env1)))) (os_path_join (cache_dir manager1) ''a'')
       = Some (NotJson [])"
  by (simp add: set_cache_def is_in_eval manager1_def env1_def ref_compress_16 os_path_join_def)

section \<open>Expiry\<close>

text \<open>In the memory tier an entry set with a ttl expires as claimed: \<open>set_cache\<close>
  stores the expiry \<open>now + ttl\<close> (\<open>set_cache_memory_entry\<close>), a get strictly before
  it returns the decoded value and changes nothing, a get at or after it returns a miss
  and deletes the entry (\<open>expiry_aux_memory\<close>). The disk getter does the same on a
  well-formed entry file (\<open>expiry_aux_disk\<close>).\<close>

lemma memory_expiry_after_set:
  assumes "compress_data L v = Inr c" and "decompress_data L c = Inr v"
    and "is_in layer [''memory'', ''multi'']"
    and "set_cache L k v ttl layer (m, w) = (r, m', w')"
  shows "(t < clock w + of_int ttl \<longrightarrow>
            get_from_memory_cache L k (m', w'\<lparr>clock := t\<rparr>) = (Inr v, m', w'\<lparr>clock := t\<rparr>))
       \<and> (clock w + of_int ttl \<le> t \<longrightarrow>
            get_from_memory_cache L k (m', w'\<lparr>clock := t\<rparr>) =
              (Inr PNone, m'\<lparr>memory_cache := (memory_cache m')(k := None)\<rparr>, w'\<lparr>clock := t\<rparr>))"
  using set_cache_memory_entry [OF assms(1) assms(3) assms(4)] assms(2)
  by (simp add: get_from_memory_cache_def)

text \<open>
  C7. The claim: for a key set with a ttl, a get in the memory or disk tier returns the
  decoded value before the expiry, and at or after it returns a miss and removes the
  entry. The code at \<open>set_cache('k', 16, 60, 'disk')\<close> with the clock at 1000: the call
  raises and leaves an empty file; \<open>get_from_disk_cache('k')\<close> at 1000, before the
  expiry 1060, returns \<open>None\<close> and not 16; at 1060 it returns \<open>None\<close> and the file
  is still there.
\<close>

theorem disk_entry_neither_served_nor_removed:
  "set_cache ref_lib ''k'' (PInt 16) 60 ''disk'' (manager0, env0) =
     (Inl TypeError, manager0, env0\<lparr>files := [''/srv/app/cache/k'' \<mapsto> NotJson []]\<rparr>)
   \<and> clock env0 < clock env0 + 60
   \<and> get_from_disk_cache ref_lib ''k''
        (manager0, env0\<lparr>files := [''/srv/app/cache/k'' \<mapsto> NotJson []]\<rparr>) =
     (PNone, env0\<lparr>files := [''/srv/app/cache/k'' \<mapsto> NotJson []]\<rparr>)
   \<and> get_from_disk_cache ref_lib ''k''
        (manager0, env0\<lparr>files := [''/srv/app/cache/k'' \<mapsto> NotJson []], clock := 1060\<rparr>) =
     (PNone, env0\<lparr>files := [''/srv/app/cache/k'' \<mapsto> NotJson []], clock := 1060\<rparr>)
   \<and> files (snd (get_from_disk_cache ref_lib ''k''
        (manager0, env0\<lparr>files := [''/srv/app/cache/k'' \<mapsto> NotJson []], clock := 1060\<rparr>)))
        ''/srv/app/cache/k'' = Some (NotJson [])"
  by (simp add: set_cache_def get_from_disk_cache_def json_load_def is_in_eval manager0_eq
        env0_def ref_compress_16 os_path_join_def)

section \<open>Hits, fills and the client\<close>

text \<open>
  Hits on a value other than \<open>None\<close> short-circuit, in the order memory, Redis, disk:
  the wrapper returns the cached value, and the state of the caller, through which the
  function would have been run, is the one passed in.
\<close>

lemma memory_hit_short_circuit:
  assumes "generate_cache_key L func_name args kwargs = Inr key"
    and "is_in layer [''memory'', ''multi'']"
    and "memory_cache m key = Some e" and "clock w < entry_expiry e"
    and "decompress_data L (entry_value e) = Inr v" and "v \<noteq> PNone"
  shows "cache_wrapper L ttl cache_none layer func_name func args kwargs (m, w, u)
         = (Inr v, m, w, u)"
  using assms by (simp add: cache_wrapper_def get_from_memory_cache_def)

lemma redis_hit_short_circuit:
  assumes "generate_cache_key L func_name args kwargs = Inr key"
    and "is_in layer [''redis'', ''multi'']"
    and "memory_cache m key = None"
    and "redis_client m \<noteq> None" and "redis_reachable w"
    and "redis_store w key = Some (c, ex)" and "clock w < ex" and "c \<noteq> []"
    and "decompress_data L c = Inr v" and "v \<noteq> PNone"
  shows "cache_wrapper L ttl cache_none layer func_name func args kwargs (m, w, u)
         = (Inr v, m, w, u)"
  using assms
  by (auto simp: cache_wrapper_def get_from_memory_cache_def get_from_redis_cache_def
        redis_get_def)

lemma disk_hit_short_circuit:
  assumes "generate_cache_key L func_name args kwargs = Inr key"
    and "is_in layer [''disk'', ''multi'']"
    and "memory_cache m key = None"
    and "get_from_redis_cache L key (m, w) = PNone"
    and "os_path_join (cache_dir m) key \<notin> directories w"
    and "files w (os_path_join (cache_dir m) key) = Some (JsonText (JObj members))"
    and "map_of members ''expiry'' = Some (JNum ex)" and "clock w < ex"
    and "map_of members ''value'' = Some (JStr payload)"
    and "decompress_data L payload = Inr v" and "v \<noteq> PNone"
  shows "cache_wrapper L ttl cache_none layer func_name func args kwargs (m, w, u)
         = (Inr v, m, w, u)"
  using assms
  by (simp add: cache_wrapper_def get_from_memory_cache_def get_from_disk_cache_def
        json_load_def json_getitem_def float_lt_def)

text \<open>With layer \<open>memory\<close> (or \<open>redis\<close>) a miss is filled and the call returns the
  computed value; the first call of the scenario of the specification.\<close>

lemma memory_layer_first_call:
  "cache_wrapper ref_lib 60 False ''memory'' ''square'' square [PInt 4] [] (manager0, env0, 0)
   = (Inr (PInt 16),
      manager0\<lparr>memory_cache :=
        [square_key \<mapsto> \<lparr>entry_value = payload16, entry_expiry = 1060\<rparr>]\<rparr>,
      env0, 1)"
  by (simp add: key_square square_4 cache_wrapper_def get_from_memory_cache_def set_cache_def
        is_in_eval manager0_eq env0_def ref_compress_16)

lemma memory_layer_second_call:
  "cache_wrapper ref_lib 60 False ''memory'' ''square'' square [PInt 4] []
     (manager0\<lparr>memory_cache :=
        [square_key \<mapsto> \<lparr>entry_value = payload16, entry_expiry = 1060\<rparr>]\<rparr>,
      env0, 1)
   = (Inr (PInt 16),
      manager0\<lparr>memory_cache :=
        [square_key \<mapsto> \<lparr>entry_value = payload16, entry_expiry = 1060\<rparr>]\<rparr>,
      env0, 1)"
  by (simp add: key_square cache_wrapper_def get_from_memory_cache_def
        is_in_eval manager0_eq env0_def ref_decompress_16)

text \<open>No operation assigns \<open>redis_client\<close>: a manager constructed without a client
  stays without one.\<close>

lemma set_cache_keeps_client:
  "redis_client (fst (snd (set_cache L k v ttl layer (m, w)))) = redis_client m"
  by (simp add: set_cache_def Let_def split: sum.splits)

lemma get_memory_keeps_client:
  "redis_client (fst (snd (get_from_memory_cache L k (m, w)))) = redis_client m"
  by (simp add: get_from_memory_cache_def split: option.splits)

lemma invalidate_keeps_client:
  "redis_client (fst (snd (invalidate_cache key layer (m, w)))) = redis_client m"
  by (simp add: invalidate_cache_def Let_def)

section \<open>Where the code departs from its contract\<close>

text \<open>
  C2. The claim: only a key-derivation failure or an error of the cached function
  reaches the caller. The code at the call \<open>@cache(ttl=60, layer='disk')\<close> of
  \<open>square(4)\<close>: the key is derived, the function returns 16, and the wrapper raises
  the \<open>TypeError\<close> of the disk write in \<open>set_cache\<close>, which nothing catches.
\<close>

theorem disk_write_error_reaches_caller:
  "generate_cache_key ref_lib ''square'' [PInt 4] [] = Inr square_key
   \<and> square [PInt 4] [] 0 = (Inr (PInt 16), 1)
   \<and> fst (cache_wrapper ref_lib 60 False ''disk'' ''square'' square [PInt 4] []
            (manager0, env0, 0)) = Inl TypeError"
  by (simp add: key_square square_4 cache_wrapper_def get_from_disk_cache_def set_cache_def
        is_in_eval manager0_eq env0_def ref_compress_16 square_key_path(2-5))

text \<open>
  C3. The claim: a hit returns the cached value without invoking the function, also
  when the cached value is \<open>None\<close> under \<open>cache_none\<close>. The code at two calls of
  \<open>@cache(ttl=60, cache_none=True, layer='memory')\<close> around a function that returns
  \<open>None\<close>: the first call stores the encoding of \<open>None\<close>, unexpired at the second
  call, and the second call invokes the function again (the counter reaches 2).
\<close>

theorem cached_none_is_recomputed:
  "generate_cache_key ref_lib ''nothing'' [] [] = Inr nothing_key
   \<and> cache_wrapper ref_lib 60 True ''memory'' ''nothing'' nothing [] [] (manager0, env0, 0)
       = (Inr PNone,
          manager0\<lparr>memory_cache :=
            [nothing_key \<mapsto> \<lparr>entry_value = payloadNone, entry_expiry = 1060\<rparr>]\<rparr>,
          env0, 1)
   \<and> clock env0 < 1060
   \<and> decompress_data ref_lib payloadNone = Inr PNone
   \<and> cache_wrapper ref_lib 60 True ''memory'' ''nothing'' nothing [] []
         (manager0\<lparr>memory_cache :=
            [nothing_key \<mapsto> \<lparr>entry_value = payloadNone, entry_expiry = 1060\<rparr>]\<rparr>,
          env0, 1)
       = (Inr PNone,
          manager0\<lparr>memory_cache :=
            [nothing_key \<mapsto> \<lparr>entry_value = payloadNone, entry_expiry = 1060\<rparr>]\<rparr>,
          env0, 2)"
  by (simp add: key_nothing nothing_eq cache_wrapper_def get_from_memory_cache_def set_cache_def
        is_in_eval manager0_eq env0_def ref_compress_None ref_decompress_None)

text \<open>
  C6. The claim: set then get in one tier returns the value, the disk tier included.
  The code at \<open>set_cache('k', 16, 60, 'disk')\<close>: the call raises \<open>TypeError\<close> and
  leaves an empty file; \<open>get_from_disk_cache('k')\<close> then returns \<open>None\<close>.
\<close>

theorem disk_set_then_get_misses:
  "set_cache ref_lib ''k'' (PInt 16) 60 ''disk'' (manager0, env0) =
     (Inl TypeError, manager0, env0\<lparr>files := [''/srv/app/cache/k'' \<mapsto> NotJson []]\<rparr>)
   \<and> get_from_disk_cache ref_lib ''k''
        (manager0, env0\<lparr>files := [''/srv/app/cache/k'' \<mapsto> NotJson []]\<rparr>) =
     (PNone, env0\<lparr>files := [''/srv/app/cache/k'' \<mapsto> NotJson []]\<rparr>)"
  by (simp add: set_cache_def get_from_disk_cache_def json_load_def is_in_eval manager0_eq
        env0_def ref_compress_16 os_path_join_def)

text \<open>
  C8. The claim: with an unreachable Redis host the constructor does not raise, the
  client is absent, and calls of the wrapper still succeed. The code: the constructor
  returns a manager without a client, and the first call of a wrapper with the default
  layer \<open>multi\<close> raises the \<open>TypeError\<close> of the disk write.
\<close>

theorem unreachable_redis_default_layer_raises:
  "manager0 = init ''/srv/app'' ''localhost'' 6379 0 None env0
   \<and> redis_reachable env0 = False
   \<and> redis_client manager0 = None
   \<and> fst (cache_wrapper ref_lib 3600 False ''multi'' ''square'' square [PInt 4] []
            (manager0, env0, 0)) = Inl TypeError"
proof -
  have "fst (cache_wrapper ref_lib 3600 False ''multi'' ''square'' square [PInt 4] []
               (manager0, env0, 0)) = Inl TypeError"
    by (simp add: key_square square_4 cache_wrapper_def get_from_memory_cache_def
          get_from_disk_cache_def set_cache_def is_in_eval manager0_eq env0_def ref_compress_16
          square_key_path(2-5))
  moreover have "redis_client manager0 = None"
    by (simp add: manager0_eq)
  moreover have "redis_reachable env0 = False"
    by (simp add: env0_def)
  ultimately show ?thesis
    by (simp add: manager0_def)
qed

section \<open>Key derivation\<close>














end
